theory Spec2Isabelle
  imports Main
begin

section \<open>Data model\<close>

text \<open>
  The types of \<^verbatim>\<open>frontend/src/types/game.ts\<close> (repeated at the head of
  \<^verbatim>\<open>tests/server/match.test.ts\<close>). A \<^verbatim>\<open>PlayerSymbol\<close> is \<^verbatim>\<open>'X' | 'O'\<close>, here
  \<open>PlayerX\<close> and \<open>PlayerO\<close> (\<open>O\<close> is HOL's relation composition); a
  \<^verbatim>\<open>CellValue\<close> is the empty string or a player symbol. A TypeScript \<^verbatim>\<open>number\<close> that
  is used as an index or a coordinate is an \<open>int\<close> (fractions and NaN are outside the
  model). A board is an array of rows, each an array of cells; the tuple type
  \<^verbatim>\<open>BoardState\<close> fixes three rows of three cells, which is the predicate \<open>wf_board\<close>.
\<close>

datatype PlayerSymbol = PlayerX | PlayerO

datatype CellValue = Empty | Sym PlayerSymbol

type_synonym BoardState = "CellValue list list"

definition wf_board :: "BoardState \<Rightarrow> bool" where
  "wf_board b = (length b = 3 \<and> list_all (\<lambda>cells. length cells = 3) b)"

definition in_range :: "int \<Rightarrow> bool" where
  "in_range i = (0 \<le> i \<and> i \<le> 2)"

text \<open>The anonymous object type \<^verbatim>\<open>{ row: number; col: number }\<close>.\<close>

record Coord =
  row :: int
  col :: int

text \<open>The return type of \<^verbatim>\<open>checkWinCondition\<close>; the optional field is an option.\<close>

record WinCheck =
  won :: bool
  winningCells :: "Coord list option"

section \<open>Reading a JavaScript array\<close>

text \<open>
  \<^verbatim>\<open>xs[i]\<close> is \<^verbatim>\<open>undefined\<close> when \<open>i\<close> is not an index of \<open>xs\<close>. Reading a property of
  \<^verbatim>\<open>undefined\<close> throws a TypeError, so \<^verbatim>\<open>board[i][j]\<close> throws when \<^verbatim>\<open>board[i]\<close> is
  undefined and is \<^verbatim>\<open>undefined\<close> when only \<open>j\<close> is out of range.
\<close>

datatype 'a jsval = Undefined | Val 'a

datatype js_error = TypeError | UndefinedRead

definition js_index :: "'a list \<Rightarrow> int \<Rightarrow> 'a jsval" where
  "js_index xs i = (if 0 \<le> i \<and> i < int (length xs) then Val (xs ! nat i) else Undefined)"

type_synonym reader = "int \<Rightarrow> int \<Rightarrow> js_error + CellValue jsval"

definition board_read :: "BoardState \<Rightarrow> reader" where
  "board_read b i j =
     (case js_index b i of
        Undefined \<Rightarrow> Inl TypeError
      | Val cells \<Rightarrow> Inr (js_index cells j))"

text \<open>
  The same read, instrumented: it also fails when the cell itself is undefined. A run
  over \<open>strict_read\<close> that ends in \<open>Inr\<close> has read defined rows and cells only.
\<close>

definition strict_read :: "BoardState \<Rightarrow> reader" where
  "strict_read b i j =
     (case board_read b i j of
        Inl e \<Rightarrow> Inl e
      | Inr Undefined \<Rightarrow> Inl UndefinedRead
      | Inr (Val v) \<Rightarrow> Inr (Val v))"

section \<open>The win check\<close>

text \<open>
  \<^verbatim>\<open>checkWinCondition\<close> of \<^verbatim>\<open>tests/server/match.test.ts\<close> (lines 19 to 74, "copied
  from match.ts"). \<open>branch\<close> is an \<^verbatim>\<open>if\<close> whose condition may throw, \<open>and_also\<close> is
  the short-circuit \<^verbatim>\<open>&&\<close>, \<open>is_symbol rd i j s\<close> is \<^verbatim>\<open>board[i][j] === symbol\<close>.
  The body is written over the reader, so that the same body runs on the plain and on the
  instrumented read.
\<close>

definition branch :: "js_error + bool \<Rightarrow> js_error + 'a \<Rightarrow> js_error + 'a \<Rightarrow> js_error + 'a" where
  "branch c t f = (case c of Inl e \<Rightarrow> Inl e | Inr v \<Rightarrow> (if v then t else f))"

definition and_also :: "js_error + bool \<Rightarrow> js_error + bool \<Rightarrow> js_error + bool" where
  "and_also p q = branch p q (Inr False)"

definition is_symbol :: "reader \<Rightarrow> int \<Rightarrow> int \<Rightarrow> PlayerSymbol \<Rightarrow> js_error + bool" where
  "is_symbol rd i j s = (case rd i j of Inl e \<Rightarrow> Inl e | Inr v \<Rightarrow> Inr (v = Val (Sym s)))"

definition win_at :: "Coord list \<Rightarrow> WinCheck" where
  "win_at cells = \<lparr>won = True, winningCells = Some cells\<rparr>"

definition no_win :: WinCheck where
  "no_win = \<lparr>won = False, winningCells = None\<rparr>"

definition checkWinCondition_on :: "reader \<Rightarrow> int \<Rightarrow> int \<Rightarrow> PlayerSymbol \<Rightarrow> js_error + WinCheck" where
  "checkWinCondition_on rd lastRow lastCol s =
     branch (and_also (is_symbol rd lastRow 0 s)
               (and_also (is_symbol rd lastRow 1 s) (is_symbol rd lastRow 2 s)))
       (Inr (win_at [\<lparr>row = lastRow, col = 0\<rparr>, \<lparr>row = lastRow, col = 1\<rparr>,
                     \<lparr>row = lastRow, col = 2\<rparr>]))
    (branch (and_also (is_symbol rd 0 lastCol s)
               (and_also (is_symbol rd 1 lastCol s) (is_symbol rd 2 lastCol s)))
       (Inr (win_at [\<lparr>row = 0, col = lastCol\<rparr>, \<lparr>row = 1, col = lastCol\<rparr>,
                     \<lparr>row = 2, col = lastCol\<rparr>]))
    (branch (and_also (Inr (lastRow = lastCol))
               (and_also (is_symbol rd 0 0 s)
                  (and_also (is_symbol rd 1 1 s) (is_symbol rd 2 2 s))))
       (Inr (win_at [\<lparr>row = 0, col = 0\<rparr>, \<lparr>row = 1, col = 1\<rparr>, \<lparr>row = 2, col = 2\<rparr>]))
    (branch (and_also (Inr (lastRow + lastCol = 2))
               (and_also (is_symbol rd 0 2 s)
                  (and_also (is_symbol rd 1 1 s) (is_symbol rd 2 0 s))))
       (Inr (win_at [\<lparr>row = 0, col = 2\<rparr>, \<lparr>row = 1, col = 1\<rparr>, \<lparr>row = 2, col = 0\<rparr>]))
       (Inr no_win))))"

definition checkWinCondition :: "BoardState \<Rightarrow> int \<Rightarrow> int \<Rightarrow> PlayerSymbol \<Rightarrow> js_error + WinCheck" where
  "checkWinCondition b lastRow lastCol s = checkWinCondition_on (board_read b) lastRow lastCol s"

section \<open>Lines of the board\<close>

text \<open>
  The specification's words for what the win check computes: the lines through the cell
  just played, in the order row, column, main diagonal (only if the cell is on it),
  anti-diagonal (only if the cell is on it), and the first of them that is complete. A
  cell \<open>holds\<close> a symbol when reading it yields that symbol.
\<close>

definition row_line :: "int \<Rightarrow> Coord list" where
  "row_line r = [\<lparr>row = r, col = 0\<rparr>, \<lparr>row = r, col = 1\<rparr>, \<lparr>row = r, col = 2\<rparr>]"

definition col_line :: "int \<Rightarrow> Coord list" where
  "col_line c = [\<lparr>row = 0, col = c\<rparr>, \<lparr>row = 1, col = c\<rparr>, \<lparr>row = 2, col = c\<rparr>]"

definition main_diagonal :: "Coord list" where
  "main_diagonal = [\<lparr>row = 0, col = 0\<rparr>, \<lparr>row = 1, col = 1\<rparr>, \<lparr>row = 2, col = 2\<rparr>]"

definition anti_diagonal :: "Coord list" where
  "anti_diagonal = [\<lparr>row = 0, col = 2\<rparr>, \<lparr>row = 1, col = 1\<rparr>, \<lparr>row = 2, col = 0\<rparr>]"

definition lines_through :: "int \<Rightarrow> int \<Rightarrow> Coord list list" where
  "lines_through r c =
     [row_line r, col_line c] @ (if r = c then [main_diagonal] else [])
       @ (if r + c = 2 then [anti_diagonal] else [])"

definition holds :: "BoardState \<Rightarrow> PlayerSymbol \<Rightarrow> Coord \<Rightarrow> bool" where
  "holds b s p = (board_read b (row p) (col p) = Inr (Val (Sym s)))"

definition line_complete :: "BoardState \<Rightarrow> PlayerSymbol \<Rightarrow> Coord list \<Rightarrow> bool" where
  "line_complete b s l = list_all (holds b s) l"

definition first_complete_line :: "BoardState \<Rightarrow> int \<Rightarrow> int \<Rightarrow> PlayerSymbol \<Rightarrow> Coord list option" where
  "first_complete_line b r c s = find (line_complete b s) (lines_through r c)"

text \<open>The naive evaluator: a scan of all eight lines of the board.\<close>

definition all_lines :: "Coord list list" where
  "all_lines = [row_line 0, row_line 1, row_line 2, col_line 0, col_line 1, col_line 2,
                main_diagonal, anti_diagonal]"

definition scan_all_lines :: "BoardState \<Rightarrow> PlayerSymbol \<Rightarrow> bool" where
  "scan_all_lines b s = list_ex (line_complete b s) all_lines"

text \<open>
  The assignment \<^verbatim>\<open>board[i][j] = v\<close>. It is used for a row \<open>i\<close> and a cell \<open>j\<close> that
  the board has: \<open>apply_move\<close> calls it after reading the cell, and the theorems take a
  board of three rows of three cells and indices in [0,2].
\<close>

definition set_cell :: "BoardState \<Rightarrow> int \<Rightarrow> int \<Rightarrow> CellValue \<Rightarrow> BoardState" where
  "set_cell b i j v = b[nat i := (b ! nat i)[nat j := v]]"

section \<open>Board model: apply and evaluate\<close>

datatype Rejection = OutOfBounds | CellOccupied | NotYourTurn | MatchAlreadyFinished

text \<open>
  Modelled from the spec: \<^verbatim>\<open>apply(board, row, col, symbol)\<close> of the Board Model (the
  server's \<^verbatim>\<open>match.ts\<close> is not among the sources). It fails with \<open>OutOfBounds\<close> if
  row or col is outside [0,2], with \<open>CellOccupied\<close> if the target cell is non-empty, and
  otherwise returns the board with that cell set.
\<close>

definition apply_move :: "BoardState \<Rightarrow> int \<Rightarrow> int \<Rightarrow> PlayerSymbol \<Rightarrow> Rejection + BoardState" where
  "apply_move b r c s =
     (if \<not> (in_range r \<and> in_range c) then Inl OutOfBounds
      else if board_read b r c \<noteq> Inr (Val Empty) then Inl CellOccupied
      else Inr (set_cell b r c (Sym s)))"

datatype Evaluation = Win "Coord list" | Draw | Ongoing

definition board_full :: "BoardState \<Rightarrow> bool" where
  "board_full b = list_all (list_all (\<lambda>v. v \<noteq> Empty)) b"

text \<open>
  Modelled from the spec: \<^verbatim>\<open>evaluate(board, lastRow, lastCol, symbol)\<close> of the Board
  Model, whose line check is the source's \<open>checkWinCondition\<close>; the draw test is missing
  from the sources. If no line is found and all 9 cells are occupied it returns \<open>Draw\<close>,
  otherwise \<open>Ongoing\<close>.
\<close>

definition evaluate :: "BoardState \<Rightarrow> int \<Rightarrow> int \<Rightarrow> PlayerSymbol \<Rightarrow> js_error + Evaluation" where
  "evaluate b lastRow lastCol s =
     (case checkWinCondition b lastRow lastCol s of
        Inl e \<Rightarrow> Inl e
      | Inr w \<Rightarrow>
          Inr (if won w then Win (case winningCells w of Some cells \<Rightarrow> cells | None \<Rightarrow> [])
               else if board_full b then Draw else Ongoing))"

section \<open>Match state\<close>

text \<open>
  The remaining types of \<^verbatim>\<open>frontend/src/types/game.ts\<close>. The enum \<^verbatim>\<open>MatchState\<close> is the
  lifecycle phase; the interface \<^verbatim>\<open>GameState\<close> is what the specification calls the
  MatchState. \<^verbatim>\<open>players\<close> is an object with the optional keys X and O, a map from the
  symbol. Optional fields are options.
\<close>

datatype MatchState = WAITING | PLAYING | FINISHED | ABANDONED

datatype GameResult = X_WINS | O_WINS | DRAW | ONGOING

record Player =
  userId :: string
  username :: string
  symbol :: PlayerSymbol
  present :: bool

record GameState =
  board :: BoardState
  currentPlayer :: PlayerSymbol
  players :: "PlayerSymbol \<rightharpoonup> Player"
  state :: MatchState
  result :: GameResult
  moveCount :: int
  lastMoveTime :: int
  winnerCells :: "Coord list option"
  timeoutWarningSent :: "bool option"

section \<open>Match state machine\<close>

text \<open>
  Modelled from the spec: the result tag of sections 4.2, 4.3, 6 and 8, which tells a win by
  a completed line from a win by forfeit (\<open>DrawResult\<close> and \<open>AbandonedResult\<close> are the
  spec's tags Draw and Abandoned). The source's \<open>GameResult\<close> names the winner only, so the
  tag stands beside it: in the outcome of the transition that ends the match and in the
  call of the Result Sink.
\<close>

datatype ResultTag = WinByLine | WinByForfeit | DrawResult | AbandonedResult

text \<open>
  What an operation of the state machine reports beside the next state: the move was
  applied and the match goes on, the transition ended the match with the given result tag,
  the move or event was rejected, or there was nothing to do.
\<close>

datatype Outcome = Applied | Ended ResultTag | Rejected Rejection | NoOp

definition terminal :: "MatchState \<Rightarrow> bool" where
  "terminal p = (p = FINISHED \<or> p = ABANDONED)"

fun other :: "PlayerSymbol \<Rightarrow> PlayerSymbol" where
  "other PlayerX = PlayerO"
| "other PlayerO = PlayerX"

fun win_result :: "PlayerSymbol \<Rightarrow> GameResult" where
  "win_result PlayerX = X_WINS"
| "win_result PlayerO = O_WINS"

text \<open>The symbol of the participant with the given identity, if it plays in the match.\<close>

definition symbol_of :: "GameState \<Rightarrow> string \<Rightarrow> PlayerSymbol option" where
  "symbol_of st pid =
     (case players st PlayerX of
        Some p \<Rightarrow> if userId p = pid then Some (symbol p) else
          (case players st PlayerO of
             Some q \<Rightarrow> if userId q = pid then Some (symbol q) else None
           | None \<Rightarrow> None)
      | None \<Rightarrow>
          (case players st PlayerO of
             Some q \<Rightarrow> if userId q = pid then Some (symbol q) else None
           | None \<Rightarrow> None))"

text \<open>
  Modelled from the spec: \<^verbatim>\<open>submitMove(state, participantIdentity, row, col, now)\<close> of
  the Match State Machine (the server's \<^verbatim>\<open>match.ts\<close> is not among the sources), over the
  source's \<open>GameState\<close>. The spec names the rejections and gives them no order; the
  model takes first the two that the spec states for every call: a match in a terminal
  phase rejects with \<open>MatchAlreadyFinished\<close> (sections 4.3, 7 and 8: any further call), and
  a move with row or col outside [0,2] is rejected with \<open>OutOfBounds\<close> (section 8: any such
  move). Then \<open>NotYourTurn\<close> if the phase is not Playing or the participant's symbol is
  not on turn, then \<open>CellOccupied\<close> from the board model. An accepted move is applied,
  counted and timed, and the board is evaluated from the cell just played: a win finishes
  the match with the winner's result, the winning cells and the tag \<open>WinByLine\<close>, a draw
  finishes it with \<open>DRAW\<close>, and otherwise the turn passes to the other symbol.
\<close>

definition submitMove ::
  "GameState \<Rightarrow> string \<Rightarrow> int \<Rightarrow> int \<Rightarrow> int \<Rightarrow> js_error + (GameState \<times> Outcome)" where
  "submitMove st pid r c now =
     (if terminal (state st) then Inr (st, Rejected MatchAlreadyFinished)
      else if \<not> (in_range r \<and> in_range c) then Inr (st, Rejected OutOfBounds)
      else if state st \<noteq> PLAYING \<or> symbol_of st pid \<noteq> Some (currentPlayer st)
        then Inr (st, Rejected NotYourTurn)
      else
        (case apply_move (board st) r c (currentPlayer st) of
           Inl rej \<Rightarrow> Inr (st, Rejected rej)
         | Inr b \<Rightarrow>
             (let moved = st\<lparr>board := b, moveCount := moveCount st + 1, lastMoveTime := now\<rparr>
              in case evaluate b r c (currentPlayer st) of
                   Inl e \<Rightarrow> Inl e
                 | Inr (Win cells) \<Rightarrow>
                     Inr (moved\<lparr>state := FINISHED, result := win_result (currentPlayer st),
                                 winnerCells := Some cells\<rparr>, Ended WinByLine)
                 | Inr Draw \<Rightarrow>
                     Inr (moved\<lparr>state := FINISHED, result := DRAW\<rparr>, Ended DrawResult)
                 | Inr Ongoing \<Rightarrow>
                     Inr (moved\<lparr>currentPlayer := other (currentPlayer st)\<rparr>, Applied))))"

text \<open>
  Modelled from the spec: \<^verbatim>\<open>checkTimeout(state, now, deadlineSeconds)\<close>. In a terminal
  phase it rejects with \<open>MatchAlreadyFinished\<close>; if the phase is Playing and
  \<open>now - lastMoveTime \<ge> deadlineSeconds\<close> the participant on turn forfeits: the phase
  becomes Finished, the result is the other symbol's win, no winning line is recorded, and
  the result tag is \<open>WinByForfeit\<close>; otherwise it is a no-op.
\<close>

definition checkTimeout :: "GameState \<Rightarrow> int \<Rightarrow> int \<Rightarrow> GameState \<times> Outcome" where
  "checkTimeout st now deadlineSeconds =
     (if terminal (state st) then (st, Rejected MatchAlreadyFinished)
      else if state st = PLAYING \<and> now - lastMoveTime st \<ge> deadlineSeconds
        then (st\<lparr>state := FINISHED, result := win_result (other (currentPlayer st)),
                  winnerCells := None\<rparr>, Ended WinByForfeit)
      else (st, NoOp))"

text \<open>
  Modelled from the spec: \<^verbatim>\<open>markAbandoned(state, departedParticipant)\<close>: if the phase is
  Playing or Waiting, it becomes Abandoned.
\<close>

definition markAbandoned :: "GameState \<Rightarrow> string \<Rightarrow> GameState" where
  "markAbandoned st pid =
     (if state st = PLAYING \<or> state st = WAITING then st\<lparr>state := ABANDONED\<rparr> else st)"

section \<open>Match session\<close>

text \<open>
  Modelled from the spec: one step of the Match Session's ordered queue (section 4.3),
  with what it sends. A rejection is reported to the submitting participant only; a
  transition that changes the state is broadcast; the transition into a terminal phase
  calls the Result Sink with the final state and the result tag.
\<close>

datatype Event = MoveEvent string int int int | TickEvent int | AbandonEvent string

datatype Effect =
  Broadcast GameState | Report string Rejection | ResultSink GameState ResultTag

definition sink_calls :: "GameState \<Rightarrow> GameState \<Rightarrow> ResultTag \<Rightarrow> Effect list" where
  "sink_calls st st' tag =
     (if \<not> terminal (state st) \<and> terminal (state st') then [ResultSink st' tag] else [])"

fun is_sink_call :: "Effect \<Rightarrow> bool" where
  "is_sink_call (ResultSink g tag) = True"
| "is_sink_call e = False"

definition session_step :: "int \<Rightarrow> GameState \<Rightarrow> Event \<Rightarrow> js_error + (GameState \<times> Effect list)" where
  "session_step deadlineSeconds st ev =
     (case ev of
        MoveEvent pid r c now \<Rightarrow>
          (case submitMove st pid r c now of
             Inl e \<Rightarrow> Inl e
           | Inr (st', Rejected rej) \<Rightarrow> Inr (st', [Report pid rej])
           | Inr (st', Ended tag) \<Rightarrow> Inr (st', Broadcast st' # sink_calls st st' tag)
           | Inr (st', Applied) \<Rightarrow> Inr (st', [Broadcast st'])
           | Inr (st', NoOp) \<Rightarrow> Inr (st', []))
      | TickEvent now \<Rightarrow>
          (case checkTimeout st now deadlineSeconds of
             (st', Ended tag) \<Rightarrow> Inr (st', Broadcast st' # sink_calls st st' tag)
           | (st', outcome) \<Rightarrow> Inr (st', []))
      | AbandonEvent pid \<Rightarrow>
          (if terminal (state st) then Inr (st, [])
           else Inr (markAbandoned st pid,
                     Broadcast (markAbandoned st pid)
                       # sink_calls st (markAbandoned st pid) AbandonedResult)))"

section \<open>Client: the game state hook\<close>

text \<open>
  \<^verbatim>\<open>useGameState\<close> (hooks/useGameState.ts). The hook holds three pieces of React state.
  \<open>handleMessage\<close> is the \<^verbatim>\<open>switch\<close> over a parsed server message; decoding and
  \<^verbatim>\<open>JSON.parse\<close> come before it and are not modelled. The \<^verbatim>\<open>data\<close> of a message is a
  game state (an object with a \<^verbatim>\<open>board\<close>), a string, or a rejected move; the deep copy
  of a game state is the same value.
\<close>

record HookState =
  gameState :: "GameState option"
  isLoading :: bool
  error :: "string option"

datatype ServerMessageType =
  GAME_STATE | MOVE_ACCEPTED | MOVE_REJECTED | GAME_OVER | PLAYER_JOINED | PLAYER_LEFT
  | ERROR | TIMEOUT_WARNING

datatype MessageData = StateData GameState | StringData string | MoveData int int string

record ServerMessage =
  msgType :: ServerMessageType
  msgData :: "MessageData option"

definition update_state :: "MessageData option \<Rightarrow> HookState \<Rightarrow> HookState" where
  "update_state d h =
     (case d of
        Some (StateData g) \<Rightarrow> h\<lparr>gameState := Some g, error := None\<rparr>
      | _ \<Rightarrow> h)"

definition set_error :: "MessageData option \<Rightarrow> HookState \<Rightarrow> HookState" where
  "set_error d h =
     (case d of
        Some (StringData msg) \<Rightarrow> h\<lparr>error := Some msg\<rparr>
      | _ \<Rightarrow> h)"

definition handleMessage :: "ServerMessage \<Rightarrow> HookState \<Rightarrow> HookState" where
  "handleMessage m h =
     (case msgType m of
        GAME_STATE \<Rightarrow> update_state (msgData m) h
      | MOVE_ACCEPTED \<Rightarrow> update_state (msgData m) h
      | PLAYER_JOINED \<Rightarrow> update_state (msgData m) h
      | GAME_OVER \<Rightarrow> update_state (msgData m) h
      | MOVE_REJECTED \<Rightarrow> set_error (msgData m) h
      | ERROR \<Rightarrow> set_error (msgData m) h
      | TIMEOUT_WARNING \<Rightarrow> h
      | PLAYER_LEFT \<Rightarrow> h)"

text \<open>
  \<open>makeMove\<close>: \<open>connected\<close> is \<^verbatim>\<open>socket && isConnected && matchId\<close> and \<open>ready\<close> is
  \<^verbatim>\<open>client && session\<close>. The two guards return with an error and send nothing. Past
  them, a missing client or session throws before the call, and the \<^verbatim>\<open>catch\<close> sets the
  error; otherwise the move is sent by RPC, and \<open>reply\<close> is what comes back: the call fails
  (or its payload does not parse), the payload is empty, or it is a response with its
  \<^verbatim>\<open>success\<close> flag and optional game state. The result is the hook's state when the
  function has ended (\<^verbatim>\<open>finally\<close> clears the loading flag) and the move that was sent,
  \<open>None\<close> when no RPC was made.
\<close>

datatype RpcReply = RpcFailed | RpcEmpty | RpcResponse bool "GameState option"

definition makeMove ::
  "bool \<Rightarrow> bool \<Rightarrow> RpcReply \<Rightarrow> HookState \<Rightarrow> int \<Rightarrow> int \<Rightarrow> HookState \<times> (int \<times> int) option" where
  "makeMove connected ready reply h r c =
     (if \<not> connected then (h\<lparr>error := Some ''Not connected to server''\<rparr>, None)
      else
        (case gameState h of
           None \<Rightarrow> (h\<lparr>error := Some ''Game is not in progress''\<rparr>, None)
         | Some g \<Rightarrow>
             if state g \<noteq> PLAYING then (h\<lparr>error := Some ''Game is not in progress''\<rparr>, None)
             else if \<not> ready
               then (h\<lparr>isLoading := False, error := Some ''Failed to make move''\<rparr>, None)
             else
               (case reply of
                  RpcFailed \<Rightarrow>
                    (h\<lparr>isLoading := False, error := Some ''Failed to make move''\<rparr>, Some (r, c))
                | RpcEmpty \<Rightarrow> (h\<lparr>isLoading := False, error := None\<rparr>, Some (r, c))
                | RpcResponse success updated \<Rightarrow>
                    if success then
                      (case updated of
                         Some g' \<Rightarrow>
                           (h\<lparr>gameState := Some g', isLoading := False, error := None\<rparr>,
                            Some (r, c))
                       | None \<Rightarrow> (h\<lparr>isLoading := False, error := None\<rparr>, Some (r, c)))
                    else
                      (h\<lparr>isLoading := False, error := Some ''Failed to make move''\<rparr>,
                       Some (r, c)))))"

section \<open>Client: the board component\<close>

text \<open>
  \<^verbatim>\<open>GameBoard\<close> (components/GameBoard.tsx) for a game state that is not null.
  \<^verbatim>\<open>currentPlayer?.userId === currentUserId\<close> holds only when the player on turn exists
  and the user id is a string equal to that player's. \<open>handleCellClick\<close> first logs
  \<^verbatim>\<open>board[row][col]\<close>, which throws when the row is undefined; its result is the call of
  \<^verbatim>\<open>onCellClick\<close> it makes, \<open>None\<close> when it returns without one. The optional prop
  \<^verbatim>\<open>disabled\<close> is an option.
\<close>

definition isMyTurn :: "GameState \<Rightarrow> string option \<Rightarrow> bool" where
  "isMyTurn g currentUserId =
     ((case players g (currentPlayer g) of
         None \<Rightarrow> False
       | Some p \<Rightarrow> (case currentUserId of None \<Rightarrow> False | Some u \<Rightarrow> userId p = u))
      \<and> state g = PLAYING)"

definition handleCellClick ::
  "GameState \<Rightarrow> string option \<Rightarrow> bool option \<Rightarrow> int \<Rightarrow> int \<Rightarrow> js_error + (int \<times> int) option" where
  "handleCellClick g currentUserId disabled r c =
     (case board_read (board g) r c of
        Inl e \<Rightarrow> Inl e
      | Inr v \<Rightarrow>
          if disabled = Some True then Inr None
          else if \<not> isMyTurn g currentUserId then Inr None
          else if v \<noteq> Val Empty then Inr None
          else Inr (Some (r, c)))"

section \<open>Scenarios\<close>

text \<open>
  The boards of the specification's scenarios (before the move) and of the tests of
  \<^verbatim>\<open>tests/server/match.test.ts\<close>, and a match between two participants to run them in.
\<close>

definition horizontal_board :: BoardState where
  "horizontal_board =
     [[Sym PlayerX, Sym PlayerX, Empty], [Sym PlayerO, Sym PlayerO, Empty], [Empty, Empty, Empty]]"

definition draw_board :: BoardState where
  "draw_board =
     [[Sym PlayerX, Sym PlayerO, Sym PlayerX], [Sym PlayerO, Sym PlayerO, Sym PlayerX],
      [Sym PlayerO, Sym PlayerX, Empty]]"

definition anti_diagonal_board :: BoardState where
  "anti_diagonal_board =
     [[Empty, Sym PlayerO, Sym PlayerX], [Sym PlayerO, Sym PlayerX, Empty], [Sym PlayerX, Empty, Empty]]"

definition stale_line_board :: BoardState where
  "stale_line_board =
     [[Sym PlayerX, Sym PlayerX, Sym PlayerX], [Sym PlayerO, Sym PlayerO, Empty],
      [Sym PlayerO, Empty, Sym PlayerX]]"

definition alice :: Player where
  "alice = \<lparr>userId = ''alice'', username = ''Alice'', symbol = PlayerX, present = True\<rparr>"

definition bob :: Player where
  "bob = \<lparr>userId = ''bob'', username = ''Bob'', symbol = PlayerO, present = True\<rparr>"

definition scenario_state :: "BoardState \<Rightarrow> PlayerSymbol \<Rightarrow> MatchState \<Rightarrow> GameState" where
  "scenario_state b turn phase =
     \<lparr>board = b, currentPlayer = turn, players = [PlayerX \<mapsto> alice, PlayerO \<mapsto> bob],
      state = phase, result = ONGOING, moveCount = 0, lastMoveTime = 0, winnerCells = None,
      timeoutWarningSent = None\<rparr>"

definition idle_hook :: HookState where
  "idle_hook = \<lparr>gameState = None, isLoading = False, error = None\<rparr>"

section \<open>Boards of three rows of three cells\<close>

lemma list_of_length3: "length xs = 3 \<Longrightarrow> \<exists>a b c. xs = [a, b, c]"
  by (cases xs; simp; cases "tl xs"; simp; cases "tl (tl xs)"; auto)

lemma wf_board_cells:
  assumes "wf_board b"
  obtains a0 a1 a2 b0 b1 b2 c0 c1 c2
  where "b = [[a0, a1, a2], [b0, b1, b2], [c0, c1, c2]]"
proof -
  from assms have l: "length b = 3" and rs: "list_all (\<lambda>cells. length cells = 3) b"
    by (simp_all add: wf_board_def)
  from list_of_length3 [OF l] obtain x y z where b: "b = [x, y, z]" by blast
  with rs have "length x = 3" "length y = 3" "length z = 3" by simp_all
  then obtain a0 a1 a2 b0 b1 b2 c0 c1 c2
    where "x = [a0, a1, a2]" "y = [b0, b1, b2]" "z = [c0, c1, c2]"
    using list_of_length3 by metis
  with b that show thesis by blast
qed

lemma in_range_cases: "in_range i \<Longrightarrow> i = 0 \<or> i = 1 \<or> i = 2"
  by (auto simp: in_range_def)

lemma js_index3 [simp]:
  "js_index [a, b, c] i =
     (if i = 0 then Val a else if i = 1 then Val b else if i = 2 then Val c else Undefined)"
  by (auto simp: js_index_def nth_Cons' nat_eq_iff)

lemma set_cell3:
  "set_cell [[a0, a1, a2], [b0, b1, b2], [c0, c1, c2]] 0 0 v = [[v, a1, a2], [b0, b1, b2], [c0, c1, c2]]"
  "set_cell [[a0, a1, a2], [b0, b1, b2], [c0, c1, c2]] 0 1 v = [[a0, v, a2], [b0, b1, b2], [c0, c1, c2]]"
  "set_cell [[a0, a1, a2], [b0, b1, b2], [c0, c1, c2]] 0 2 v = [[a0, a1, v], [b0, b1, b2], [c0, c1, c2]]"
  "set_cell [[a0, a1, a2], [b0, b1, b2], [c0, c1, c2]] 1 0 v = [[a0, a1, a2], [v, b1, b2], [c0, c1, c2]]"
  "set_cell [[a0, a1, a2], [b0, b1, b2], [c0, c1, c2]] 1 1 v = [[a0, a1, a2], [b0, v, b2], [c0, c1, c2]]"
  "set_cell [[a0, a1, a2], [b0, b1, b2], [c0, c1, c2]] 1 2 v = [[a0, a1, a2], [b0, b1, v], [c0, c1, c2]]"
  "set_cell [[a0, a1, a2], [b0, b1, b2], [c0, c1, c2]] 2 0 v = [[a0, a1, a2], [b0, b1, b2], [v, c1, c2]]"
  "set_cell [[a0, a1, a2], [b0, b1, b2], [c0, c1, c2]] 2 1 v = [[a0, a1, a2], [b0, b1, b2], [c0, v, c2]]"
  "set_cell [[a0, a1, a2], [b0, b1, b2], [c0, c1, c2]] 2 2 v = [[a0, a1, a2], [b0, b1, b2], [c0, c1, v]]"
  by (simp_all add: set_cell_def numeral_2_eq_2)

lemmas model_defs = checkWinCondition_def checkWinCondition_on_def branch_def and_also_def
  is_symbol_def board_read_def strict_read_def win_at_def no_win_def

lemmas line_defs = first_complete_line_def lines_through_def row_line_def col_line_def
  main_diagonal_def anti_diagonal_def line_complete_def holds_def all_lines_def
  scan_all_lines_def

lemmas scenario_defs = horizontal_board_def draw_board_def anti_diagonal_board_def
  stale_line_board_def scenario_state_def alice_def bob_def idle_hook_def

lemma wf_scenario_boards:
  "wf_board horizontal_board" "wf_board draw_board" "wf_board anti_diagonal_board"
  "wf_board stale_line_board"
  by (simp_all add: wf_board_def scenario_defs)

section \<open>The win check and the lines through the last move\<close>

lemma checkWinCondition_find:
  assumes "wf_board b" "in_range r" "in_range c"
  shows "checkWinCondition b r c s =
     Inr (case first_complete_line b r c s of None \<Rightarrow> no_win | Some l \<Rightarrow> win_at l)"
proof -
  from assms(1) obtain a0 a1 a2 b0 b1 b2 c0 c1 c2
    where b: "b = [[a0, a1, a2], [b0, b1, b2], [c0, c1, c2]]" by (rule wf_board_cells)
  from in_range_cases [OF assms(2)] in_range_cases [OF assms(3)]
  show ?thesis unfolding b
    by (elim disjE; simp add: model_defs line_defs)
qed

text \<open>
  C1. On every board of three rows of three cells, for every \<open>lastRow\<close> and \<open>lastCol\<close> in
  [0,2] and every symbol, \<open>checkWinCondition\<close> returns what the search through the lines
  in the order row, column, main diagonal (only if \<open>lastRow = lastCol\<close>), anti-diagonal
  (only if \<open>lastRow + lastCol = 2\<close>) finds: the first line all of whose cells hold the
  symbol, as a win with exactly the coordinates of that line, and no win if there is none.
  In the horizontal-win scenario, after X is written into (0,2), the result is a win with
  the cells (0,0), (0,1), (0,2).
\<close>

theorem checkWinCondition_first_line:
  "(wf_board b \<and> in_range lastRow \<and> in_range lastCol \<longrightarrow>
      checkWinCondition b lastRow lastCol s =
        Inr (case find (line_complete b s) (lines_through lastRow lastCol) of
               None \<Rightarrow> \<lparr>won = False, winningCells = None\<rparr>
             | Some l \<Rightarrow> \<lparr>won = True, winningCells = Some l\<rparr>))
   \<and> checkWinCondition (set_cell horizontal_board 0 2 (Sym PlayerX)) 0 2 PlayerX =
        Inr \<lparr>won = True,
             winningCells = Some [\<lparr>row = 0, col = 0\<rparr>, \<lparr>row = 0, col = 1\<rparr>, \<lparr>row = 0, col = 2\<rparr>]\<rparr>"
proof (intro conjI impI)
  assume "wf_board b \<and> in_range lastRow \<and> in_range lastCol"
  then have "checkWinCondition b lastRow lastCol s =
      Inr (case first_complete_line b lastRow lastCol s of None \<Rightarrow> no_win | Some l \<Rightarrow> win_at l)"
    by (simp add: checkWinCondition_find)
  then show "checkWinCondition b lastRow lastCol s =
        Inr (case find (line_complete b s) (lines_through lastRow lastCol) of
               None \<Rightarrow> \<lparr>won = False, winningCells = None\<rparr>
             | Some l \<Rightarrow> \<lparr>won = True, winningCells = Some l\<rparr>)"
    by (simp add: first_complete_line_def no_win_def win_at_def split: option.split)
next
  show "checkWinCondition (set_cell horizontal_board 0 2 (Sym PlayerX)) 0 2 PlayerX =
        Inr \<lparr>won = True,
             winningCells = Some [\<lparr>row = 0, col = 0\<rparr>, \<lparr>row = 0, col = 1\<rparr>, \<lparr>row = 0, col = 2\<rparr>]\<rparr>"
    by (simp add: horizontal_board_def set_cell3 model_defs)
qed

text \<open>
  The anti-diagonal test of the source (X at (2,0)): row 2 and column 0 are incomplete,
  the cell is not on the main diagonal, and the anti-diagonal is the line returned.
\<close>

theorem checkWinCondition_first_line_witness:
  "wf_board anti_diagonal_board \<and> in_range 2 \<and> in_range 0
   \<and> find (line_complete anti_diagonal_board PlayerX) (lines_through 2 0) = Some anti_diagonal
   \<and> checkWinCondition anti_diagonal_board 2 0 PlayerX =
       Inr \<lparr>won = True,
            winningCells = Some [\<lparr>row = 0, col = 2\<rparr>, \<lparr>row = 1, col = 1\<rparr>, \<lparr>row = 2, col = 0\<rparr>]\<rparr>"
proof -
  have h: "wf_board anti_diagonal_board \<and> in_range 2 \<and> in_range 0"
    by (simp add: wf_scenario_boards in_range_def)
  have f: "find (line_complete anti_diagonal_board PlayerX) (lines_through 2 0) = Some anti_diagonal"
    by (simp add: line_defs board_read_def anti_diagonal_board_def)
  from checkWinCondition_first_line [of anti_diagonal_board 2 0 PlayerX] h
  have "checkWinCondition anti_diagonal_board 2 0 PlayerX =
        Inr (case find (line_complete anti_diagonal_board PlayerX) (lines_through 2 0) of
               None \<Rightarrow> \<lparr>won = False, winningCells = None\<rparr>
             | Some l \<Rightarrow> \<lparr>won = True, winningCells = Some l\<rparr>)"
    by blast
  with h f show ?thesis by (simp add: anti_diagonal_def)
qed

text \<open>
  C2, as amended. On a board of three rows of three cells, for every cell in [0,2] x [0,2]
  that holds the symbol, and provided the symbol had no complete line before that cell was
  written (the board with the cell emptied has none), the check of the lines through the
  cell reports a win exactly when the scan of all eight lines finds a complete line of the
  symbol.
\<close>

theorem through_last_move_iff_all_lines:
  assumes "wf_board b" "in_range lastRow" "in_range lastCol"
    and "holds b s \<lparr>row = lastRow, col = lastCol\<rparr>"
    and "\<not> scan_all_lines (set_cell b lastRow lastCol Empty) s"
  shows "\<exists>w. checkWinCondition b lastRow lastCol s = Inr w \<and> (won w \<longleftrightarrow> scan_all_lines b s)"
proof -
  from assms(1) obtain a0 a1 a2 b0 b1 b2 c0 c1 c2
    where b: "b = [[a0, a1, a2], [b0, b1, b2], [c0, c1, c2]]" by (rule wf_board_cells)
  from in_range_cases [OF assms(2)] in_range_cases [OF assms(3)] assms(4,5)
  show ?thesis unfolding b
    by (elim disjE; simp add: model_defs line_defs set_cell3; blast?)
qed

theorem through_last_move_iff_all_lines_witness:
  "wf_board (set_cell horizontal_board 0 2 (Sym PlayerX)) \<and> in_range 0 \<and> in_range 2
   \<and> holds (set_cell horizontal_board 0 2 (Sym PlayerX)) PlayerX \<lparr>row = 0, col = 2\<rparr>
   \<and> \<not> scan_all_lines (set_cell (set_cell horizontal_board 0 2 (Sym PlayerX)) 0 2 Empty) PlayerX
   \<and> scan_all_lines (set_cell horizontal_board 0 2 (Sym PlayerX)) PlayerX
   \<and> (\<exists>w. checkWinCondition (set_cell horizontal_board 0 2 (Sym PlayerX)) 0 2 PlayerX = Inr w
          \<and> won w = scan_all_lines (set_cell horizontal_board 0 2 (Sym PlayerX)) PlayerX)"
proof -
  have h1: "wf_board (set_cell horizontal_board 0 2 (Sym PlayerX))"
    by (simp add: horizontal_board_def set_cell3 wf_board_def)
  have h2: "in_range 0" "in_range 2" by (simp_all add: in_range_def)
  have h3: "holds (set_cell horizontal_board 0 2 (Sym PlayerX)) PlayerX \<lparr>row = 0, col = 2\<rparr>"
    by (simp add: horizontal_board_def set_cell3 holds_def board_read_def)
  have h4: "\<not> scan_all_lines (set_cell (set_cell horizontal_board 0 2 (Sym PlayerX)) 0 2 Empty) PlayerX"
    by (simp add: horizontal_board_def set_cell3 line_defs board_read_def)
  have s: "scan_all_lines (set_cell horizontal_board 0 2 (Sym PlayerX)) PlayerX"
    by (simp add: horizontal_board_def set_cell3 line_defs board_read_def)
  from through_last_move_iff_all_lines [OF h1 h2 h3 h4] h1 h2 h3 h4 s show ?thesis by blast
qed

text \<open>
  Counterexample to C2 as stated, for every board and every cell that holds the symbol: it
  fails where the symbol has a complete line that does not pass through the cell. X holds
  (2,2), the check from (2,2) reports no win, and the scan of all lines finds row 0.
\<close>

theorem through_last_move_counterexample:
  "wf_board stale_line_board
   \<and> holds stale_line_board PlayerX \<lparr>row = 2, col = 2\<rparr>
   \<and> checkWinCondition stale_line_board 2 2 PlayerX = Inr \<lparr>won = False, winningCells = None\<rparr>
   \<and> scan_all_lines stale_line_board PlayerX"
  by (simp add: stale_line_board_def wf_board_def model_defs line_defs)

text \<open>
  C3. On a board of three rows of three cells and for a cell (r,c) in [0,2] x [0,2]: when the
  cell holds a symbol, the check from (r,c) for the other symbol reports no win; so it does
  on the board obtained by writing the symbol into (r,c).
\<close>

theorem no_win_for_other_symbol:
  assumes "wf_board b" "in_range r" "in_range c" "s' \<noteq> s"
  shows "(board_read b r c = Inr (Val (Sym s)) \<longrightarrow>
            checkWinCondition b r c s' = Inr \<lparr>won = False, winningCells = None\<rparr>)
       \<and> checkWinCondition (set_cell b r c (Sym s)) r c s' = Inr \<lparr>won = False, winningCells = None\<rparr>"
proof -
  from assms(1) obtain a0 a1 a2 b0 b1 b2 c0 c1 c2
    where b: "b = [[a0, a1, a2], [b0, b1, b2], [c0, c1, c2]]" by (rule wf_board_cells)
  from in_range_cases [OF assms(2)] in_range_cases [OF assms(3)] assms(4)
  show ?thesis unfolding b
    by (elim disjE; simp add: model_defs set_cell3)
qed

theorem no_win_for_other_symbol_witness:
  "wf_board horizontal_board \<and> in_range 1 \<and> in_range 1 \<and> PlayerX \<noteq> PlayerO
   \<and> board_read horizontal_board 1 1 = Inr (Val (Sym PlayerO))
   \<and> checkWinCondition horizontal_board 1 1 PlayerX = Inr \<lparr>won = False, winningCells = None\<rparr>
   \<and> checkWinCondition (set_cell horizontal_board 1 1 (Sym PlayerO)) 1 1 PlayerX =
       Inr \<lparr>won = False, winningCells = None\<rparr>"
proof -
  have h: "wf_board horizontal_board" "in_range 1" "PlayerX \<noteq> PlayerO"
    by (simp_all add: wf_scenario_boards in_range_def)
  have r: "board_read horizontal_board 1 1 = Inr (Val (Sym PlayerO))"
    by (simp add: horizontal_board_def board_read_def)
  from no_win_for_other_symbol [OF h(1) h(2) h(2) h(3)] h r show ?thesis by blast
qed

text \<open>
  C9. On a board of three rows of three cells and for \<open>lastRow\<close>, \<open>lastCol\<close> in [0,2],
  \<open>checkWinCondition\<close> returns a result and reads defined rows and cells only: the run over
  the instrumented read, which fails on an undefined cell, ends with the same result and
  without an error. The function does not check the bound itself: with \<open>lastRow\<close> outside
  [0,2] its first read throws a TypeError.
\<close>

theorem checkWinCondition_in_bounds:
  "(wf_board b \<and> in_range lastRow \<and> in_range lastCol \<longrightarrow>
      checkWinCondition_on (strict_read b) lastRow lastCol s = checkWinCondition b lastRow lastCol s
      \<and> (\<exists>w. checkWinCondition b lastRow lastCol s = Inr w))
   \<and> (wf_board b \<and> \<not> in_range lastRow \<longrightarrow> checkWinCondition b lastRow lastCol s = Inl TypeError)"
proof (intro conjI impI)
  assume h: "wf_board b \<and> in_range lastRow \<and> in_range lastCol"
  then obtain a0 a1 a2 b0 b1 b2 c0 c1 c2
    where b: "b = [[a0, a1, a2], [b0, b1, b2], [c0, c1, c2]]" by (blast elim: wf_board_cells)
  from h have "lastRow = 0 \<or> lastRow = 1 \<or> lastRow = 2" "lastCol = 0 \<or> lastCol = 1 \<or> lastCol = 2"
    by (simp_all add: in_range_cases)
  then show "checkWinCondition_on (strict_read b) lastRow lastCol s = checkWinCondition b lastRow lastCol s"
    unfolding b by (elim disjE; simp add: model_defs)
  from h show "\<exists>w. checkWinCondition b lastRow lastCol s = Inr w"
    by (simp add: checkWinCondition_find)
next
  assume h: "wf_board b \<and> \<not> in_range lastRow"
  then have "js_index b lastRow = Undefined"
    by (auto simp: wf_board_def js_index_def in_range_def)
  then show "checkWinCondition b lastRow lastCol s = Inl TypeError"
    by (simp add: model_defs)
qed

theorem checkWinCondition_in_bounds_witness:
  "wf_board draw_board \<and> in_range 2 \<and> in_range 1 \<and> \<not> in_range 3
   \<and> checkWinCondition_on (strict_read draw_board) 2 1 PlayerX = Inr \<lparr>won = False, winningCells = None\<rparr>
   \<and> checkWinCondition draw_board 2 1 PlayerX = Inr \<lparr>won = False, winningCells = None\<rparr>
   \<and> checkWinCondition draw_board 3 1 PlayerX = Inl TypeError"
proof -
  have h: "wf_board draw_board" "in_range 2" "in_range 1" "\<not> in_range 3"
    by (simp_all add: wf_scenario_boards in_range_def)
  have e: "checkWinCondition draw_board 2 1 PlayerX = Inr \<lparr>won = False, winningCells = None\<rparr>"
    by (simp add: draw_board_def model_defs)
  from checkWinCondition_in_bounds [of draw_board 2 1 PlayerX] h e
  have "checkWinCondition_on (strict_read draw_board) 2 1 PlayerX = Inr \<lparr>won = False, winningCells = None\<rparr>"
    by simp
  moreover from checkWinCondition_in_bounds [of draw_board 3 1 PlayerX] h
  have "checkWinCondition draw_board 3 1 PlayerX = Inl TypeError" by blast
  ultimately show ?thesis using h e by simp
qed


section \<open>The board model\<close>

lemmas machine_defs = submitMove_def checkTimeout_def markAbandoned_def terminal_def
  symbol_of_def apply_move_def evaluate_def board_full_def




section \<open>Draw and ongoing\<close>

lemma not_Empty_iff: "v \<noteq> Empty \<longleftrightarrow> (\<exists>t. v = Sym t)"
  by (cases v) simp_all

lemma all_in_range: "(\<forall>i. in_range i \<longrightarrow> P i) \<longleftrightarrow> P 0 \<and> P 1 \<and> P 2"
proof
  assume "\<forall>i. in_range i \<longrightarrow> P i"
  then show "P 0 \<and> P 1 \<and> P 2" by (simp add: in_range_def)
next
  assume p: "P 0 \<and> P 1 \<and> P 2"
  show "\<forall>i. in_range i \<longrightarrow> P i"
  proof (intro allI impI)
    fix i assume "in_range i"
    then have "i = 0 \<or> i = 1 \<or> i = 2" by (rule in_range_cases)
    with p show "P i" by blast
  qed
qed

lemma all_in_range2:
  "(\<forall>i j. in_range i \<and> in_range j \<longrightarrow> Q i j) \<longleftrightarrow>
     (Q 0 0 \<and> Q 0 1 \<and> Q 0 2) \<and> (Q 1 0 \<and> Q 1 1 \<and> Q 1 2) \<and> (Q 2 0 \<and> Q 2 1 \<and> Q 2 2)"
proof -
  have "(\<forall>i j. in_range i \<and> in_range j \<longrightarrow> Q i j) \<longleftrightarrow>
      (\<forall>i. in_range i \<longrightarrow> (\<forall>j. in_range j \<longrightarrow> Q i j))"
    by blast
  then show ?thesis by (simp only: all_in_range)
qed

lemma board_full_cells:
  assumes "wf_board b"
  shows "board_full b \<longleftrightarrow>
     (\<forall>i j. in_range i \<and> in_range j \<longrightarrow> (\<exists>t. board_read b i j = Inr (Val (Sym t))))"
proof -
  from assms obtain a0 a1 a2 b0 b1 b2 c0 c1 c2
    where b: "b = [[a0, a1, a2], [b0, b1, b2], [c0, c1, c2]]" by (rule wf_board_cells)
  show ?thesis unfolding b all_in_range2
    by (simp add: board_full_def board_read_def not_Empty_iff)
qed

text \<open>
  C7. On a board of three rows of three cells, for a cell in [0,2] x [0,2], when no line
  through the cell is complete for the symbol: \<open>evaluate\<close> returns \<open>Draw\<close> if all nine
  cells are occupied, that is, every cell (i,j) with i and j in [0,2] holds a symbol, and
  \<open>Ongoing\<close> otherwise. In the draw scenario, O playing (2,2) finishes the match with the
  result \<open>DRAW\<close>.
\<close>

theorem evaluate_draw_or_ongoing:
  "(wf_board b \<and> in_range lastRow \<and> in_range lastCol
      \<and> \<not> list_ex (line_complete b s) (lines_through lastRow lastCol) \<longrightarrow>
      evaluate b lastRow lastCol s =
        Inr (if (\<forall>i j. in_range i \<and> in_range j \<longrightarrow>
                   (\<exists>t. board_read b i j = Inr (Val (Sym t))))
             then Draw else Ongoing))
   \<and> (\<exists>st'. submitMove (scenario_state draw_board PlayerO PLAYING) ''bob'' 2 2 9
               = Inr (st', Ended DrawResult)
         \<and> state st' = FINISHED \<and> result st' = DRAW)"
proof (intro conjI impI)
  assume h: "wf_board b \<and> in_range lastRow \<and> in_range lastCol
      \<and> \<not> list_ex (line_complete b s) (lines_through lastRow lastCol)"
  then have "first_complete_line b lastRow lastCol s = None"
    by (simp add: first_complete_line_def find_None_iff list_ex_iff)
  moreover from h have "checkWinCondition b lastRow lastCol s =
     Inr (case first_complete_line b lastRow lastCol s of None \<Rightarrow> no_win | Some l \<Rightarrow> win_at l)"
    by (simp add: checkWinCondition_find)
  ultimately have "evaluate b lastRow lastCol s = Inr (if board_full b then Draw else Ongoing)"
    by (simp add: evaluate_def no_win_def)
  moreover from h have "board_full b \<longleftrightarrow>
     (\<forall>i j. in_range i \<and> in_range j \<longrightarrow> (\<exists>t. board_read b i j = Inr (Val (Sym t))))"
    by (simp add: board_full_cells)
  ultimately show "evaluate b lastRow lastCol s =
        Inr (if (\<forall>i j. in_range i \<and> in_range j \<longrightarrow>
                   (\<exists>t. board_read b i j = Inr (Val (Sym t))))
             then Draw else Ongoing)"
    by simp
next
  show "\<exists>st'. submitMove (scenario_state draw_board PlayerO PLAYING) ''bob'' 2 2 9
               = Inr (st', Ended DrawResult)
         \<and> state st' = FINISHED \<and> result st' = DRAW"
    by (simp add: machine_defs scenario_defs model_defs set_cell3 in_range_def)
qed

text \<open>
  The draw test of the source (the full board, last move O at (2,2)) evaluates to \<open>Draw\<close>.
  The same board with the one cell (2,2) still empty, from O's cell (1,1), evaluates to
  \<open>Ongoing\<close>: eight occupied cells are not a draw.
\<close>

theorem evaluate_draw_or_ongoing_witness:
  "wf_board (set_cell draw_board 2 2 (Sym PlayerO)) \<and> in_range 2
   \<and> \<not> list_ex (line_complete (set_cell draw_board 2 2 (Sym PlayerO)) PlayerO) (lines_through 2 2)
   \<and> evaluate (set_cell draw_board 2 2 (Sym PlayerO)) 2 2 PlayerO = Inr Draw
   \<and> wf_board draw_board \<and> in_range 1
   \<and> \<not> list_ex (line_complete draw_board PlayerO) (lines_through 1 1)
   \<and> board_read draw_board 2 2 = Inr (Val Empty)
   \<and> evaluate draw_board 1 1 PlayerO = Inr Ongoing"
proof -
  let ?b = "set_cell draw_board 2 2 (Sym PlayerO)"
  have h: "wf_board ?b" "in_range 2" "in_range 1" "wf_board draw_board"
    by (simp_all add: draw_board_def set_cell3 wf_board_def in_range_def)
  have n: "\<not> list_ex (line_complete ?b PlayerO) (lines_through 2 2)"
    "\<not> list_ex (line_complete draw_board PlayerO) (lines_through 1 1)"
    by (simp_all add: draw_board_def set_cell3 line_defs board_read_def)
  have f: "\<forall>i j. in_range i \<and> in_range j \<longrightarrow> (\<exists>t. board_read ?b i j = Inr (Val (Sym t)))"
    unfolding all_in_range2 by (simp add: draw_board_def set_cell3 board_read_def)
  have e: "board_read draw_board 2 2 = Inr (Val Empty)"
    by (simp add: draw_board_def board_read_def)
  have g: "\<not> (\<forall>i j. in_range i \<and> in_range j \<longrightarrow>
      (\<exists>t. board_read draw_board i j = Inr (Val (Sym t))))"
  proof
    assume "\<forall>i j. in_range i \<and> in_range j \<longrightarrow>
      (\<exists>t. board_read draw_board i j = Inr (Val (Sym t)))"
    with h(2) have "\<exists>t. board_read draw_board 2 2 = Inr (Val (Sym t))" by blast
    with e show False by simp
  qed
  from evaluate_draw_or_ongoing [of ?b 2 2 PlayerO] h n f
  have 1: "evaluate ?b 2 2 PlayerO = Inr Draw" by simp
  from evaluate_draw_or_ongoing [of draw_board 1 1 PlayerO] h n g
  have 2: "evaluate draw_board 1 1 PlayerO = Inr Ongoing" by simp
  from h n e 1 2 show ?thesis by simp
qed


section \<open>The match state machine and the session\<close>

lemma submitMove_rejected_same:
  "submitMove st pid r c now = Inr (st', Rejected rej) \<Longrightarrow> st' = st"
  by (auto simp: submitMove_def Let_def split: if_splits sum.splits Evaluation.splits)

lemma checkTimeout_rejected_same:
  "checkTimeout st now d = (st', Rejected rej) \<Longrightarrow> st' = st"
  by (auto simp: checkTimeout_def split: if_splits)

text \<open>
  C5. For every match state whose phase is Finished or Abandoned: \<open>submitMove\<close> and
  \<open>checkTimeout\<close> return the state unchanged with the rejection \<open>MatchAlreadyFinished\<close>;
  \<open>markAbandoned\<close> leaves it unchanged; every event of the session leaves it unchanged
  and makes no Result Sink call; and the client's \<open>makeMove\<close>, holding such a state,
  returns at its guard without sending a move.
\<close>

theorem terminal_phase_rejects:
  "terminal (state st) \<Longrightarrow>
     submitMove st pid r c now = Inr (st, Rejected MatchAlreadyFinished)
   \<and> checkTimeout st now deadlineSeconds = (st, Rejected MatchAlreadyFinished)
   \<and> markAbandoned st pid = st
   \<and> (\<exists>effects. session_step deadlineSeconds st ev = Inr (st, effects)
         \<and> \<not> list_ex is_sink_call effects)
   \<and> snd (makeMove connected ready reply (h\<lparr>gameState := Some st\<rparr>) r c) = None"
  by (cases ev) (auto simp: submitMove_def checkTimeout_def markAbandoned_def session_step_def
      makeMove_def terminal_def)

theorem terminal_phase_rejects_witness:
  "terminal (state (scenario_state horizontal_board PlayerX FINISHED))
   \<and> submitMove (scenario_state horizontal_board PlayerX FINISHED) ''alice'' 0 2 7 =
       Inr (scenario_state horizontal_board PlayerX FINISHED, Rejected MatchAlreadyFinished)
   \<and> checkTimeout (scenario_state horizontal_board PlayerX FINISHED) 7 30 =
       (scenario_state horizontal_board PlayerX FINISHED, Rejected MatchAlreadyFinished)
   \<and> snd (makeMove True True RpcEmpty
            (idle_hook\<lparr>gameState := Some (scenario_state horizontal_board PlayerX FINISHED)\<rparr>) 0 2)
       = None"
proof -
  let ?st = "scenario_state horizontal_board PlayerX FINISHED"
  have h: "terminal (state ?st)" by (simp add: scenario_state_def terminal_def)
  from terminal_phase_rejects [OF h, where pid = "''alice''" and r = 0 and c = 2 and now = 7
      and deadlineSeconds = 30 and ev = "TickEvent 7" and connected = True and ready = True
      and reply = RpcEmpty and h = idle_hook] h
  show ?thesis by simp
qed

text \<open>
  C6. For every match state with phase Playing and every \<open>now\<close> and \<open>deadlineSeconds\<close> with
  \<open>now - lastMoveTime \<ge> deadlineSeconds\<close>, \<open>checkTimeout\<close> moves to the phase Finished
  with the result of the symbol not on turn (\<open>X_WINS\<close> when O is on turn, \<open>O_WINS\<close> when X
  is), records no winning cells, changes nothing else, and tags the result \<open>WinByForfeit\<close>;
  the session passes that tag to the Result Sink. The tag sets the forfeit apart from a
  win by line: a move that ends the match is tagged \<open>WinByLine\<close> or \<open>DrawResult\<close>, never
  \<open>WinByForfeit\<close>, and a timeout is never tagged \<open>WinByLine\<close>.
\<close>

theorem checkTimeout_forfeit:
  "state st = PLAYING \<Longrightarrow> now - lastMoveTime st \<ge> deadlineSeconds \<Longrightarrow>
     checkTimeout st now deadlineSeconds =
       (st\<lparr>state := FINISHED, result := win_result (other (currentPlayer st)),
           winnerCells := None\<rparr>, Ended WinByForfeit)
   \<and> (win_result (other (currentPlayer st)) = X_WINS \<longleftrightarrow> currentPlayer st = PlayerO)
   \<and> (win_result (other (currentPlayer st)) = O_WINS \<longleftrightarrow> currentPlayer st = PlayerX)
   \<and> session_step deadlineSeconds st (TickEvent now) =
       Inr (fst (checkTimeout st now deadlineSeconds),
            [Broadcast (fst (checkTimeout st now deadlineSeconds)),
             ResultSink (fst (checkTimeout st now deadlineSeconds)) WinByForfeit])
   \<and> WinByForfeit \<noteq> WinByLine
   \<and> (\<forall>st2 pid r c t st3 tag. submitMove st2 pid r c t = Inr (st3, Ended tag) \<longrightarrow>
         tag = WinByLine \<or> tag = DrawResult)
   \<and> (\<forall>st2 t d st3. checkTimeout st2 t d \<noteq> (st3, Ended WinByLine))"
proof (intro conjI allI impI)
  assume h: "state st = PLAYING" "now - lastMoveTime st \<ge> deadlineSeconds"
  then show c: "checkTimeout st now deadlineSeconds =
       (st\<lparr>state := FINISHED, result := win_result (other (currentPlayer st)),
           winnerCells := None\<rparr>, Ended WinByForfeit)"
    by (simp add: checkTimeout_def terminal_def)
  from h show "session_step deadlineSeconds st (TickEvent now) =
       Inr (fst (checkTimeout st now deadlineSeconds),
            [Broadcast (fst (checkTimeout st now deadlineSeconds)),
             ResultSink (fst (checkTimeout st now deadlineSeconds)) WinByForfeit])"
    by (simp add: session_step_def c sink_calls_def terminal_def)
next
  show "win_result (other (currentPlayer st)) = X_WINS \<longleftrightarrow> currentPlayer st = PlayerO"
    by (cases "currentPlayer st") simp_all
  show "win_result (other (currentPlayer st)) = O_WINS \<longleftrightarrow> currentPlayer st = PlayerX"
    by (cases "currentPlayer st") simp_all
  show "WinByForfeit \<noteq> WinByLine" by simp
next
  fix st2 pid r c t st3 tag
  assume "submitMove st2 pid r c t = Inr (st3, Ended tag)"
  then show "tag = WinByLine \<or> tag = DrawResult"
    by (auto simp: submitMove_def Let_def split: if_splits sum.splits Evaluation.splits)
next
  fix st2 t d st3
  show "checkTimeout st2 t d \<noteq> (st3, Ended WinByLine)"
    by (auto simp: checkTimeout_def split: if_splits)
qed

text \<open>
  The timeout scenario: O is on turn and the deadline of 30 has passed by one. The match
  is Finished, X has won, no winning cells are recorded and the tag is \<open>WinByForfeit\<close>.
  The row completed by X in the horizontal scenario ends with the same result \<open>X_WINS\<close>
  and the tag \<open>WinByLine\<close>.
\<close>

theorem checkTimeout_forfeit_witness:
  "state (scenario_state horizontal_board PlayerO PLAYING) = PLAYING
   \<and> 31 - lastMoveTime (scenario_state horizontal_board PlayerO PLAYING) \<ge> 30
   \<and> snd (checkTimeout (scenario_state horizontal_board PlayerO PLAYING) 31 30) = Ended WinByForfeit
   \<and> state (fst (checkTimeout (scenario_state horizontal_board PlayerO PLAYING) 31 30)) = FINISHED
   \<and> result (fst (checkTimeout (scenario_state horizontal_board PlayerO PLAYING) 31 30)) = X_WINS
   \<and> winnerCells (fst (checkTimeout (scenario_state horizontal_board PlayerO PLAYING) 31 30)) = None
   \<and> (\<exists>st'. submitMove (scenario_state horizontal_board PlayerX PLAYING) ''alice'' 0 2 7
               = Inr (st', Ended WinByLine)
         \<and> result st' = X_WINS
         \<and> winnerCells st' = Some [\<lparr>row = 0, col = 0\<rparr>, \<lparr>row = 0, col = 1\<rparr>, \<lparr>row = 0, col = 2\<rparr>])"
proof -
  let ?st = "scenario_state horizontal_board PlayerO PLAYING"
  have h: "state ?st = PLAYING" "31 - lastMoveTime ?st \<ge> 30" "currentPlayer ?st = PlayerO"
    by (simp_all add: scenario_state_def)
  from checkTimeout_forfeit [OF h(1) h(2)]
  have "checkTimeout ?st 31 30 =
       (?st\<lparr>state := FINISHED, result := win_result (other (currentPlayer ?st)),
           winnerCells := None\<rparr>, Ended WinByForfeit)"
    by blast
  with h have 1: "snd (checkTimeout ?st 31 30) = Ended WinByForfeit"
    "state (fst (checkTimeout ?st 31 30)) = FINISHED"
    "result (fst (checkTimeout ?st 31 30)) = X_WINS"
    "winnerCells (fst (checkTimeout ?st 31 30)) = None"
    by simp_all
  have 2: "\<exists>st'. submitMove (scenario_state horizontal_board PlayerX PLAYING) ''alice'' 0 2 7
               = Inr (st', Ended WinByLine)
         \<and> result st' = X_WINS
         \<and> winnerCells st' = Some [\<lparr>row = 0, col = 0\<rparr>, \<lparr>row = 0, col = 1\<rparr>, \<lparr>row = 0, col = 2\<rparr>]"
    by (simp add: machine_defs scenario_defs model_defs set_cell3 in_range_def)
  from h 1 2 show ?thesis by simp
qed

text \<open>
  C8. Every rejection leaves the match state unchanged: a \<open>submitMove\<close> or a
  \<open>checkTimeout\<close> that rejects, with any of the four rejections, returns the state it was
  given; the session then reports a rejected move to the submitting participant only and
  sends nothing else, no broadcast. On the client, a \<open>MOVE_REJECTED\<close> message leaves the held
  game state and the loading flag as they are and sets the error to the message's string
  (and changes nothing if the data is not a string).
\<close>

theorem rejection_leaves_state:
  "(submitMove st pid r c now = Inr (st', Rejected rej) \<longrightarrow>
      st' = st \<and> session_step deadlineSeconds st (MoveEvent pid r c now) = Inr (st, [Report pid rej]))
 \<and> (checkTimeout st now deadlineSeconds = (st', Rejected rej) \<longrightarrow>
      st' = st \<and> session_step deadlineSeconds st (TickEvent now) = Inr (st, []))
 \<and> gameState (handleMessage \<lparr>msgType = MOVE_REJECTED, msgData = dt\<rparr> h) = gameState h
 \<and> isLoading (handleMessage \<lparr>msgType = MOVE_REJECTED, msgData = dt\<rparr> h) = isLoading h
 \<and> error (handleMessage \<lparr>msgType = MOVE_REJECTED, msgData = dt\<rparr> h) =
      (case dt of Some (StringData msg) \<Rightarrow> Some msg | _ \<Rightarrow> error h)"
proof (intro conjI impI)
  assume a: "submitMove st pid r c now = Inr (st', Rejected rej)"
  then show "st' = st" by (rule submitMove_rejected_same)
  with a show "session_step deadlineSeconds st (MoveEvent pid r c now) = Inr (st, [Report pid rej])"
    by (simp add: session_step_def)
next
  assume a: "checkTimeout st now deadlineSeconds = (st', Rejected rej)"
  then show "st' = st" by (rule checkTimeout_rejected_same)
  with a show "session_step deadlineSeconds st (TickEvent now) = Inr (st, [])"
    by (simp add: session_step_def)
qed (simp_all add: handleMessage_def set_error_def split: option.splits MessageData.splits)

text \<open>
  The occupied-cell scenario: (0,0) holds X and O, on turn, plays (0,0). The move is
  rejected with \<open>CellOccupied\<close> and reported to O's participant alone.
\<close>

theorem rejection_leaves_state_witness:
  "submitMove (scenario_state horizontal_board PlayerO PLAYING) ''bob'' 0 0 7 =
     Inr (scenario_state horizontal_board PlayerO PLAYING, Rejected CellOccupied)
   \<and> session_step 30 (scenario_state horizontal_board PlayerO PLAYING) (MoveEvent ''bob'' 0 0 7) =
       Inr (scenario_state horizontal_board PlayerO PLAYING, [Report ''bob'' CellOccupied])
   \<and> checkTimeout (scenario_state horizontal_board PlayerO ABANDONED) 100 30 =
       (scenario_state horizontal_board PlayerO ABANDONED, Rejected MatchAlreadyFinished)
   \<and> session_step 30 (scenario_state horizontal_board PlayerO ABANDONED) (TickEvent 100) =
       Inr (scenario_state horizontal_board PlayerO ABANDONED, [])
   \<and> error (handleMessage \<lparr>msgType = MOVE_REJECTED, msgData = Some (StringData ''Cell occupied'')\<rparr>
              idle_hook) = Some ''Cell occupied''"
proof -
  let ?st = "scenario_state horizontal_board PlayerO PLAYING"
  let ?ab = "scenario_state horizontal_board PlayerO ABANDONED"
  have 1: "submitMove ?st ''bob'' 0 0 7 = Inr (?st, Rejected CellOccupied)"
    by (simp add: machine_defs scenario_defs board_read_def in_range_def)
  have 2: "checkTimeout ?ab 100 30 = (?ab, Rejected MatchAlreadyFinished)"
    by (simp add: checkTimeout_def terminal_def scenario_state_def)
  note t = rejection_leaves_state
  from t [where st = ?st and st' = ?st and pid = "''bob''" and r = 0 and c = 0 and now = 7
            and rej = CellOccupied and deadlineSeconds = 30] 1
  have 3: "session_step 30 ?st (MoveEvent ''bob'' 0 0 7) = Inr (?st, [Report ''bob'' CellOccupied])"
    by blast
  from t [where st = ?ab and st' = ?ab and now = 100 and rej = MatchAlreadyFinished
            and deadlineSeconds = 30] 2
  have 4: "session_step 30 ?ab (TickEvent 100) = Inr (?ab, [])"
    by blast
  from t [where dt = "Some (StringData ''Cell occupied'')" and h = idle_hook]
  have 5: "error (handleMessage \<lparr>msgType = MOVE_REJECTED, msgData = Some (StringData ''Cell occupied'')\<rparr>
              idle_hook) = Some ''Cell occupied''"
    by simp
  from 1 2 3 4 5 show ?thesis by simp
qed

section \<open>The board component\<close>

text \<open>
  C10. \<open>handleCellClick\<close> calls \<open>onCellClick\<close>, with the row and column of the click,
  exactly when the board is not disabled, the match is in state \<open>PLAYING\<close> with the player
  on turn present and its id equal to the clicking user's id, and \<open>board[row][col]\<close> is the
  empty string. On a board of three rows of three cells and for a cell in [0,2] x [0,2] it
  returns, in every other case without the call.
\<close>

theorem handleCellClick_guard:
  "(handleCellClick g currentUserId disabled r c = Inr (Some m) \<longleftrightarrow>
      m = (r, c) \<and> disabled \<noteq> Some True
      \<and> state g = PLAYING
      \<and> (\<exists>p. players g (currentPlayer g) = Some p \<and> currentUserId = Some (userId p))
      \<and> board_read (board g) r c = Inr (Val Empty))
 \<and> (wf_board (board g) \<and> in_range r \<and> in_range c \<longrightarrow>
      (\<exists>call. handleCellClick g currentUserId disabled r c = Inr call))"
proof (intro conjI impI)
  show "handleCellClick g currentUserId disabled r c = Inr (Some m) \<longleftrightarrow>
      m = (r, c) \<and> disabled \<noteq> Some True
      \<and> state g = PLAYING
      \<and> (\<exists>p. players g (currentPlayer g) = Some p \<and> currentUserId = Some (userId p))
      \<and> board_read (board g) r c = Inr (Val Empty)"
    by (auto simp: handleCellClick_def isMyTurn_def split: sum.splits option.splits if_splits)
next
  assume h: "wf_board (board g) \<and> in_range r \<and> in_range c"
  then obtain a0 a1 a2 b0 b1 b2 c0 c1 c2
    where b: "board g = [[a0, a1, a2], [b0, b1, b2], [c0, c1, c2]]"
    by (blast elim: wf_board_cells)
  from h have "r = 0 \<or> r = 1 \<or> r = 2" by (simp add: in_range_cases)
  then show "\<exists>call. handleCellClick g currentUserId disabled r c = Inr call"
    by (auto simp: handleCellClick_def board_read_def b)
qed

text \<open>
  On the board of the horizontal scenario with X on turn: the click of X's user on the
  empty cell (0,2) is passed on; the same click by O's user, on the occupied cell (0,0),
  or on a disabled board is not.
\<close>

theorem handleCellClick_guard_witness:
  "wf_board (board (scenario_state horizontal_board PlayerX PLAYING)) \<and> in_range 0 \<and> in_range 2
   \<and> handleCellClick (scenario_state horizontal_board PlayerX PLAYING) (Some ''alice'') None 0 2
       = Inr (Some (0, 2))
   \<and> handleCellClick (scenario_state horizontal_board PlayerX PLAYING) (Some ''bob'') None 0 2
       = Inr None
   \<and> handleCellClick (scenario_state horizontal_board PlayerX PLAYING) (Some ''alice'') None 0 0
       = Inr None
   \<and> handleCellClick (scenario_state horizontal_board PlayerX PLAYING) (Some ''alice'') (Some True) 0 2
       = Inr None"
proof -
  let ?g = "scenario_state horizontal_board PlayerX PLAYING"
  have h: "wf_board (board ?g)" "in_range 0" "in_range 2"
    by (simp_all add: scenario_state_def wf_scenario_boards in_range_def)
  have f: "state ?g = PLAYING" "players ?g (currentPlayer ?g) = Some alice"
    "userId alice = ''alice''"
    "board_read (board ?g) 0 2 = Inr (Val Empty)"
    "board_read (board ?g) 0 0 = Inr (Val (Sym PlayerX))"
    by (simp_all add: scenario_state_def alice_def horizontal_board_def board_read_def)
  note t = handleCellClick_guard
  from t [where g = ?g and currentUserId = "Some ''alice''" and disabled = None and r = 0
            and c = 2 and m = "(0, 2)"] f
  have 1: "handleCellClick ?g (Some ''alice'') None 0 2 = Inr (Some (0, 2))" by simp
  have 2: "handleCellClick ?g (Some ''bob'') None 0 2 = Inr None"
  proof -
    from t [where g = ?g and currentUserId = "Some ''bob''" and disabled = None and r = 0 and c = 2] h
    obtain call where c: "handleCellClick ?g (Some ''bob'') None 0 2 = Inr call" by blast
    from t [where g = ?g and currentUserId = "Some ''bob''" and disabled = None and r = 0 and c = 2] f
    have "\<And>m. handleCellClick ?g (Some ''bob'') None 0 2 \<noteq> Inr (Some m)" by simp
    with c show ?thesis by (cases call) auto
  qed
  have 3: "handleCellClick ?g (Some ''alice'') None 0 0 = Inr None"
  proof -
    from t [where g = ?g and currentUserId = "Some ''alice''" and disabled = None and r = 0 and c = 0] h
    obtain call where c: "handleCellClick ?g (Some ''alice'') None 0 0 = Inr call" by blast
    from t [where g = ?g and currentUserId = "Some ''alice''" and disabled = None and r = 0 and c = 0] f
    have "\<And>m. handleCellClick ?g (Some ''alice'') None 0 0 \<noteq> Inr (Some m)" by simp
    with c show ?thesis by (cases call) auto
  qed
  have 4: "handleCellClick ?g (Some ''alice'') (Some True) 0 2 = Inr None"
  proof -
    from t [where g = ?g and currentUserId = "Some ''alice''" and disabled = "Some True" and r = 0 and c = 2] h
    obtain call where c: "handleCellClick ?g (Some ''alice'') (Some True) 0 2 = Inr call" by blast
    from t [where g = ?g and currentUserId = "Some ''alice''" and disabled = "Some True" and r = 0 and c = 2]
    have "\<And>m. handleCellClick ?g (Some ''alice'') (Some True) 0 2 \<noteq> Inr (Some m)" by simp
    with c show ?thesis by (cases call) auto
  qed
  from h 1 2 3 4 show ?thesis by simp
qed


end
